theory Spec2Isabelle
  imports Complex_Main
begin

section \<open>JavaScript values, promises and HTTP messages\<close>

text \<open>
  The values a promise of the side-chat client can carry: what \<open>res.json()\<close> parses
  (null, booleans, numbers, strings, arrays, objects) and the exception objects that
  \<open>fetch\<close> and \<open>res.json()\<close> reject with (a \<open>TypeError\<close> on a network failure, a
  \<open>SyntaxError\<close> on a body that is not JSON), kept by their message. Numbers are exact
  reals: JSON has no NaN and no infinity.
\<close>

datatype jsval =
    JNull
  | JBool bool
  | JNum real
  | JStr string
  | JArr "jsval list"
  | JObj "(string \<times> jsval) list"
  | JError string

text \<open>
  The truth value JavaScript gives a value in \<open>if (error)\<close>: \<open>null\<close>, \<open>false\<close>,
  \<open>0\<close> and the empty string are falsy; every array, object and exception object is
  truthy.
\<close>

fun truthy :: "jsval \<Rightarrow> bool" where
  "truthy JNull = False"
| "truthy (JBool b) = b"
| "truthy (JNum n) = (n \<noteq> 0)"
| "truthy (JStr s) = (s \<noteq> [])"
| "truthy (JArr xs) = True"
| "truthy (JObj kvs) = True"
| "truthy (JError m) = True"

text \<open>
  The \<open>token\<close> argument is a string; callers hand over \<open>localStorage.token\<close>, which is
  \<open>undefined\<close> when nothing is stored: \<open>None\<close>. In \<open>token && {...}\<close> both
  \<open>undefined\<close> and the empty string are falsy.
\<close>

fun token_truthy :: "string option \<Rightarrow> bool" where
  "token_truthy None = False"
| "token_truthy (Some t) = (t \<noteq> [])"

text \<open>The \<open>body\<close> member of the options handed to \<open>fetch\<close>: absent, or
  \<open>JSON.stringify\<close> of a value (the serialisation is kept symbolic).\<close>

datatype req_body = NoBody | JSON_stringify jsval

record request =
  url :: string
  "method" :: string
  headers :: "(string \<times> string) list"
  body :: req_body

text \<open>
  A response as the client reads it: the status code, from which \<open>res.ok\<close> is computed
  (true exactly for 200 to 299), and the settled promise of \<open>res.json()\<close>: \<open>Inr v\<close> when
  the body parses to \<open>v\<close>, \<open>Inl e\<close> when parsing rejects with \<open>e\<close>.
\<close>

record response =
  status :: nat
  json :: "jsval + jsval"

definition ok :: "response \<Rightarrow> bool" where
  "ok res = (200 \<le> status res \<and> status res \<le> 299)"

text \<open>
  A settled promise is \<open>Inl e\<close> (rejected with \<open>e\<close>) or \<open>Inr v\<close> (fulfilled with \<open>v\<close>);
  an async function that throws \<open>e\<close> is a promise rejected with \<open>e\<close>. The network is the
  function \<open>fetch\<close> from requests to settled promises of responses.
\<close>

type_synonym 'a promise = "jsval + 'a"

type_synonym fetch = "request \<Rightarrow> response promise"

definition promise_then :: "'a promise \<Rightarrow> ('a \<Rightarrow> 'b promise) \<Rightarrow> 'b promise" where
  "promise_then p f = (case p of Inl e \<Rightarrow> Inl e | Inr x \<Rightarrow> f x)"

text \<open>\<open>throw await p\<close>: rejects with what \<open>p\<close> rejects with, or with the value \<open>p\<close>
  fulfils with.\<close>

definition throw_await :: "jsval promise \<Rightarrow> jsval promise" where
  "throw_await p = (case p of Inl e \<Rightarrow> Inl e | Inr v \<Rightarrow> Inl v)"

text \<open>
  HTTP header names are matched without regard to case (\<open>authorization\<close> in the object
  literal is the \<open>Authorization\<close> header on the wire).
\<close>

definition ascii_lower :: "char \<Rightarrow> char" where
  "ascii_lower c =
     (case map_of (zip ''ABCDEFGHIJKLMNOPQRSTUVWXYZ'' ''abcdefghijklmnopqrstuvwxyz'') c of
        Some l \<Rightarrow> l
      | None \<Rightarrow> c)"

definition header_get :: "(string \<times> string) list \<Rightarrow> string \<Rightarrow> string option" where
  "header_get hs name =
     map_of (map (\<lambda>(k, v). (map ascii_lower k, v)) hs) (map ascii_lower name)"

definition authorization :: "request \<Rightarrow> string option" where
  "authorization r = header_get (headers r) ''Authorization''"

section \<open>The side-chat API client (src/lib/apis/side-chats/index.ts)\<close>

text \<open>
  \<open>WEBUI_API_BASE_URL\<close> is imported from \<open>$lib/constants\<close>: the parameter \<open>base\<close>.
  Each function is given by the request it hands to \<open>fetch\<close> and by what it does with
  the settled promise. The result pairs the values written with \<open>console.error\<close> with
  the settled promise the async function returns: \<open>Inl e\<close> when it throws \<open>e\<close>,
  \<open>Inr v\<close> when it returns \<open>v\<close>.
\<close>

text \<open>The spread \<open>...(token && { authorization: `Bearer ${token}` })\<close>.\<close>

definition auth_spread :: "string option \<Rightarrow> (string \<times> string) list" where
  "auth_spread token =
     (case token of
        None \<Rightarrow> []
      | Some t \<Rightarrow> (if token_truthy token then [(''authorization'', ''Bearer '' @ t)] else []))"

definition createSideChat_request :: "string \<Rightarrow> string option \<Rightarrow> jsval \<Rightarrow> request" where
  "createSideChat_request base token b =
     \<lparr> url = base @ ''/side-chats/'',
       method = ''POST'',
       headers = [(''Accept'', ''application/json''), (''Content-Type'', ''application/json'')]
                 @ auth_spread token,
       body = JSON_stringify b \<rparr>"

definition createSideChat ::
  "string \<Rightarrow> fetch \<Rightarrow> string option \<Rightarrow> jsval \<Rightarrow> jsval list \<times> jsval promise" where
  "createSideChat base fetch token b =
     (let error = JNull;
          settled = promise_then (fetch (createSideChat_request base token b))
                      (\<lambda>res. if \<not> ok res then throw_await (json res) else json res);
          (res, error, console) =
             (case settled of
                Inl err \<Rightarrow> (JNull, err, [err])
              | Inr v \<Rightarrow> (v, error, []))
      in if truthy error then (console, Inl error) else (console, Inr res))"

definition getSideChatsByChatId_request :: "string \<Rightarrow> string option \<Rightarrow> string \<Rightarrow> request" where
  "getSideChatsByChatId_request base token chatId =
     \<lparr> url = base @ ''/side-chats/by-chat/'' @ chatId,
       method = ''GET'',
       headers = [(''Accept'', ''application/json''), (''Content-Type'', ''application/json'')]
                 @ auth_spread token,
       body = NoBody \<rparr>"

definition getSideChatsByChatId ::
  "string \<Rightarrow> fetch \<Rightarrow> string option \<Rightarrow> string \<Rightarrow> jsval list \<times> jsval promise" where
  "getSideChatsByChatId base fetch token chatId =
     (let error = JNull;
          settled = promise_then (fetch (getSideChatsByChatId_request base token chatId))
                      (\<lambda>res. if \<not> ok res then throw_await (json res) else json res);
          (res, error, console) =
             (case settled of
                Inl err \<Rightarrow> (JNull, err, [err])
              | Inr v \<Rightarrow> (v, error, []))
      in if truthy error then (console, Inl error) else (console, Inr res))"

definition addSideChatMessage_request ::
  "string \<Rightarrow> string option \<Rightarrow> string \<Rightarrow> jsval \<Rightarrow> request" where
  "addSideChatMessage_request base token sideChatId b =
     \<lparr> url = base @ ''/side-chats/'' @ sideChatId @ ''/messages'',
       method = ''POST'',
       headers = [(''Accept'', ''application/json''), (''Content-Type'', ''application/json'')]
                 @ auth_spread token,
       body = JSON_stringify b \<rparr>"

definition addSideChatMessage ::
  "string \<Rightarrow> fetch \<Rightarrow> string option \<Rightarrow> string \<Rightarrow> jsval \<Rightarrow> jsval list \<times> jsval promise" where
  "addSideChatMessage base fetch token sideChatId b =
     (let error = JNull;
          settled = promise_then (fetch (addSideChatMessage_request base token sideChatId b))
                      (\<lambda>res. if \<not> ok res then throw_await (json res) else json res);
          (res, error, console) =
             (case settled of
                Inl err \<Rightarrow> (JNull, err, [err])
              | Inr v \<Rightarrow> (v, error, []))
      in if truthy error then (console, Inl error) else (console, Inr res))"

definition combineSideChat_request :: "string \<Rightarrow> string option \<Rightarrow> string \<Rightarrow> request" where
  "combineSideChat_request base token sideChatId =
     \<lparr> url = base @ ''/side-chats/'' @ sideChatId @ ''/combine'',
       method = ''POST'',
       headers = [(''Accept'', ''application/json''), (''Content-Type'', ''application/json'')]
                 @ auth_spread token,
       body = NoBody \<rparr>"

definition combineSideChat ::
  "string \<Rightarrow> fetch \<Rightarrow> string option \<Rightarrow> string \<Rightarrow> jsval list \<times> jsval promise" where
  "combineSideChat base fetch token sideChatId =
     (let error = JNull;
          settled = promise_then (fetch (combineSideChat_request base token sideChatId))
                      (\<lambda>res. if \<not> ok res then throw_await (json res) else json res);
          (res, error, console) =
             (case settled of
                Inl err \<Rightarrow> (JNull, err, [err])
              | Inr v \<Rightarrow> (v, error, []))
      in if truthy error then (console, Inl error) else (console, Inr res))"

definition deleteSideChat_request :: "string \<Rightarrow> string option \<Rightarrow> string \<Rightarrow> request" where
  "deleteSideChat_request base token sideChatId =
     \<lparr> url = base @ ''/side-chats/'' @ sideChatId,
       method = ''DELETE'',
       headers = [(''Accept'', ''application/json''), (''Content-Type'', ''application/json'')]
                 @ auth_spread token,
       body = NoBody \<rparr>"

definition deleteSideChat ::
  "string \<Rightarrow> fetch \<Rightarrow> string option \<Rightarrow> string \<Rightarrow> jsval list \<times> jsval promise" where
  "deleteSideChat base fetch token sideChatId =
     (let error = JNull;
          settled = promise_then (fetch (deleteSideChat_request base token sideChatId))
                      (\<lambda>res. if \<not> ok res then throw_await (json res) else json res);
          (res, error, console) =
             (case settled of
                Inl err \<Rightarrow> (JNull, err, [err])
              | Inr v \<Rightarrow> (v, error, []))
      in if truthy error then (console, Inl error) else (console, Inr res))"

text \<open>
  A network for stating what a function sends: it answers a request that satisfies
  \<open>P\<close> with status 200 and the JSON body \<open>v\<close>, and fails on every other request.
\<close>

definition expects :: "(request \<Rightarrow> bool) \<Rightarrow> jsval \<Rightarrow> fetch" where
  "expects P v r =
     (if P r then Inr \<lparr>status = 200, json = Inr v\<rparr> else Inl (JError ''unexpected request''))"

section \<open>The SideChat panel (src/lib/components/chat/SideChat.svelte)\<close>

text \<open>
  \<open>String.prototype.trim\<close> removes white space and line terminators from both ends.
  Characters here are the code units below 256, where those are TAB, LF, VT, FF, CR,
  SPACE and NO-BREAK SPACE.
\<close>

definition is_white_space :: "char \<Rightarrow> bool" where
  "is_white_space c =
     (c \<in> set [CHR 0x09, CHR 0x0A, CHR 0x0B, CHR 0x0C, CHR 0x0D, CHR 0x20, CHR 0xA0])"

definition trim :: "string \<Rightarrow> string" where
  "trim s = rev (dropWhile is_white_space (rev (dropWhile is_white_space s)))"

text \<open>What the panel hands to \<open>dispatch\<close>: the event name, with the \<open>content\<close> of the
  detail object for \<open>sendMessage\<close>.\<close>

datatype panel_event = SendMessage string | Combine | Discard | Close

text \<open>
  The component's variables: the exported props (\<open>stepNumber\<close>, \<open>stepContent\<close>,
  \<open>messages\<close> as (role, content) pairs, \<open>isOpen\<close>), the script's locals, and what it
  has done to the outside: the events dispatched, in order, and the number of calls of
  \<open>scrollToBottom\<close>.
\<close>

record side_chat =
  stepNumber :: nat
  stepContent :: string
  messages :: "(string \<times> string) list"
  isOpen :: bool
  inputText :: string
  isStreaming :: bool
  combineLoading :: bool
  discardLoading :: bool
  panel_events :: "panel_event list"
  scrollCalls :: nat

definition SideChat_init :: side_chat where
  "SideChat_init =
     \<lparr> stepNumber = 1, stepContent = [], messages = [], isOpen = False,
       inputText = [], isStreaming = False, combineLoading = False, discardLoading = False,
       panel_events = [], scrollCalls = 0 \<rparr>"

definition scrollToBottom :: "side_chat \<Rightarrow> side_chat" where
  "scrollToBottom s = s\<lparr>scrollCalls := Suc (scrollCalls s)\<rparr>"

definition handleSend :: "side_chat \<Rightarrow> side_chat" where
  "handleSend s =
     (if trim (inputText s) = [] \<or> isStreaming s then s
      else scrollToBottom
             (s\<lparr>panel_events := panel_events s @ [SendMessage (trim (inputText s))],
                inputText := []\<rparr>))"

definition handleCombine :: "side_chat \<Rightarrow> side_chat" where
  "handleCombine s = s\<lparr>combineLoading := True, panel_events := panel_events s @ [Combine]\<rparr>"

definition handleDiscard :: "side_chat \<Rightarrow> side_chat" where
  "handleDiscard s = s\<lparr>discardLoading := True, panel_events := panel_events s @ [Discard]\<rparr>"

definition handleKeydown :: "string \<Rightarrow> bool \<Rightarrow> side_chat \<Rightarrow> side_chat" where
  "handleKeydown key shiftKey s = (if key = ''Enter'' \<and> \<not> shiftKey then handleSend s else s)"

definition handleClose :: "side_chat \<Rightarrow> side_chat" where
  "handleClose s = s\<lparr>panel_events := panel_events s @ [Close]\<rparr>"

text \<open>
  The second component of the file (from line 160) is the event-driven variant: no
  loading flags, no scrolling. Its handlers, on the same record, leave the fields it
  does not have alone.
\<close>

definition handleSend_ev :: "side_chat \<Rightarrow> side_chat" where
  "handleSend_ev s =
     (if trim (inputText s) = [] \<or> isStreaming s then s
      else s\<lparr>panel_events := panel_events s @ [SendMessage (trim (inputText s))],
             inputText := []\<rparr>)"

definition handleCombine_ev :: "side_chat \<Rightarrow> side_chat" where
  "handleCombine_ev s = s\<lparr>panel_events := panel_events s @ [Combine]\<rparr>"

definition handleDiscard_ev :: "side_chat \<Rightarrow> side_chat" where
  "handleDiscard_ev s = s\<lparr>panel_events := panel_events s @ [Discard]\<rparr>"

text \<open>The \<open>disabled\<close> attributes of the three buttons (lines 86, 97 and 150).\<close>

definition combine_disabled :: "side_chat \<Rightarrow> bool" where
  "combine_disabled s = (combineLoading s \<or> discardLoading s)"

definition discard_disabled :: "side_chat \<Rightarrow> bool" where
  "discard_disabled s = (combineLoading s \<or> discardLoading s)"

definition send_disabled :: "side_chat \<Rightarrow> bool" where
  "send_disabled s = (trim (inputText s) = [] \<or> isStreaming s)"

text \<open>
  What can happen to a panel: the user types (the textarea is bound to \<open>inputText\<close>),
  presses a key in the textarea or clicks a button, and the parent sets \<open>isOpen\<close> or
  \<open>messages\<close>. The markup is rendered only while \<open>isOpen\<close> holds, a disabled button
  delivers no click, and the reactive statement scrolls when \<open>messages\<close> is assigned a
  non-empty array. A key reaches \<open>handleKeydown\<close> with its name and the shift state;
  \<open>preventDefault\<close> there only keeps the line break of Enter out of the textarea.
\<close>

datatype panel_input =
    Type string
  | Keydown string bool
  | ClickSend
  | ClickCombine
  | ClickDiscard
  | ClickClose
  | SetOpen bool
  | SetMessages "(string \<times> string) list"

fun panel_step :: "side_chat \<Rightarrow> panel_input \<Rightarrow> side_chat" where
  "panel_step s (Type v) = (if isOpen s then s\<lparr>inputText := v\<rparr> else s)"
| "panel_step s (Keydown key shiftKey) = (if isOpen s then handleKeydown key shiftKey s else s)"
| "panel_step s ClickSend = (if isOpen s \<and> \<not> send_disabled s then handleSend s else s)"
| "panel_step s ClickCombine =
     (if isOpen s \<and> \<not> combine_disabled s then handleCombine s else s)"
| "panel_step s ClickDiscard =
     (if isOpen s \<and> \<not> discard_disabled s then handleDiscard s else s)"
| "panel_step s ClickClose = (if isOpen s then handleClose s else s)"
| "panel_step s (SetOpen b) = s\<lparr>isOpen := b\<rparr>"
| "panel_step s (SetMessages ms) =
     (if ms \<noteq> [] then scrollToBottom (s\<lparr>messages := ms\<rparr>) else s\<lparr>messages := ms\<rparr>)"

definition panel_run :: "side_chat \<Rightarrow> panel_input list \<Rightarrow> side_chat" where
  "panel_run s ins = foldl panel_step s ins"

section \<open>StepControls, the variant with a loading flag (src/unnamed/part_000)\<close>

datatype step_event = NextStep jsval | ShowAllSteps jsval

record step_controls =
  chatId :: string
  currentStep :: nat
  totalSteps :: nat
  planSummary :: string
  loading :: bool
  step_events :: "step_event list"
  step_console :: "(string \<times> jsval) list"

definition StepControls_init :: step_controls where
  "StepControls_init =
     \<lparr> chatId = [], currentStep = 1, totalSteps = 0, planSummary = [],
       loading = False, step_events = [], step_console = [] \<rparr>"

text \<open>
  \<open>handleNext\<close> is async: it runs to the \<open>await\<close> (or returns at the guard, \<open>None\<close>),
  and resumes when the promise of \<open>nextStep\<close> settles, \<open>Inr res\<close> or \<open>Inl err\<close>, with
  the rest of the \<open>try\<close>, the \<open>catch\<close> and the \<open>finally\<close>.
\<close>

definition handleNext_begin :: "step_controls \<Rightarrow> step_controls option" where
  "handleNext_begin s =
     (if loading s \<or> chatId s = [] then None else Some (s\<lparr>loading := True\<rparr>))"

definition handleNext_settle :: "jsval promise \<Rightarrow> step_controls \<Rightarrow> step_controls" where
  "handleNext_settle outcome s =
     (case outcome of
        Inr res \<Rightarrow> (s\<lparr>step_events := step_events s @ [NextStep res]\<rparr>)\<lparr>loading := False\<rparr>
      | Inl err \<Rightarrow>
          (s\<lparr>step_console := step_console s @ [(''nextStep failed:'', err)]\<rparr>)\<lparr>loading := False\<rparr>)"

definition handleNext :: "jsval promise \<Rightarrow> step_controls \<Rightarrow> step_controls" where
  "handleNext outcome s =
     (case handleNext_begin s of None \<Rightarrow> s | Some s' \<Rightarrow> handleNext_settle outcome s')"

definition handleShowAll :: "jsval promise \<Rightarrow> step_controls \<Rightarrow> step_controls" where
  "handleShowAll outcome s =
     (if chatId s = [] then s
      else (case outcome of
              Inr res \<Rightarrow> s\<lparr>step_events := step_events s @ [ShowAllSteps res]\<rparr>
            | Inl err \<Rightarrow> s\<lparr>step_console := step_console s @ [(''getAllSteps failed:'', err)]\<rparr>))"

text \<open>The \<open>disabled\<close> attribute of the "Next" button (line 64).\<close>

definition next_disabled :: "step_controls \<Rightarrow> bool" where
  "next_disabled s = loading s"

section \<open>JavaScript numbers\<close>

text \<open>
  A number is an IEEE 754 double: a finite value, given by its sign (\<open>True\<close> for minus)
  and its magnitude, so that \<open>-0\<close> and \<open>+0\<close> differ; an infinity with its sign; or NaN.
  The result of an operation is the exact result rounded to the nearest double, ties to
  the even significand: 53 significant bits, exponents from \<open>-1022\<close> (below, the
  doubles are the multiples of \<open>2^-1074\<close>) to \<open>1023\<close> (above, the result is an
  infinity).
\<close>

datatype number = Num bool real | Infinity bool | NaN

text \<open>
  \<open>normalise m\<close>, for \<open>m > 0\<close>, is \<open>(x, e)\<close> with \<open>m = x * 2^e\<close> and \<open>1 \<le> x < 2\<close>,
  except that \<open>e\<close> stops at \<open>-1022\<close> (then \<open>x < 1\<close>: subnormal) and at \<open>1024\<close>
  (overflow).
\<close>

function scale_up :: "real \<Rightarrow> int \<Rightarrow> real \<times> int" where
  "scale_up x e = (if x < 1 \<and> - 1022 < e then scale_up (2 * x) (e - 1) else (x, e))"
  by pat_completeness auto
termination
  by (relation "measure (\<lambda>(x, e). nat (e + 1022))") auto

function scale_down :: "real \<Rightarrow> int \<Rightarrow> real \<times> int" where
  "scale_down x e = (if 2 \<le> x \<and> e < 1024 then scale_down (x / 2) (e + 1) else (x, e))"
  by pat_completeness auto
termination
  by (relation "measure (\<lambda>(x, e). nat (1024 - e))") auto

declare scale_up.simps [simp del] scale_down.simps [simp del]

definition normalise :: "real \<Rightarrow> real \<times> int" where
  "normalise m = (if m < 1 then scale_up m 0 else scale_down m 0)"

definition round_half_even :: "real \<Rightarrow> int" where
  "round_half_even q =
     (let f = \<lfloor>q\<rfloor>; r = q - of_int f
      in if r < 1 / 2 then f else if 1 / 2 < r then f + 1 else if even f then f else f + 1)"

definition pow2 :: "int \<Rightarrow> real" where
  "pow2 e = (if 0 \<le> e then 2 ^ nat e else 1 / 2 ^ nat (- e))"

text \<open>\<open>fround s m\<close>: the double nearest to the exact magnitude \<open>m\<close>, with sign \<open>s\<close>.\<close>

definition fround :: "bool \<Rightarrow> real \<Rightarrow> number" where
  "fround s m =
     (if m = 0 then Num s 0
      else (let (x, e) = normalise m;
                n = round_half_even (x * 2 ^ 52)
            in if 1024 \<le> e \<or> (e = 1023 \<and> n = 2 ^ 53) then Infinity s
               else Num s (of_int n * pow2 (e - 52))))"

definition signed :: "bool \<Rightarrow> real \<Rightarrow> real" where
  "signed s m = (if s then - m else m)"

text \<open>The operators \<open>/\<close>, \<open>*\<close>, \<open>-\<close> and \<open><=\<close> on numbers.\<close>

fun fdiv :: "number \<Rightarrow> number \<Rightarrow> number" where
  "fdiv NaN b = NaN"
| "fdiv a NaN = NaN"
| "fdiv (Infinity s) (Infinity s') = NaN"
| "fdiv (Infinity s) (Num s' m') = Infinity (s \<noteq> s')"
| "fdiv (Num s m) (Infinity s') = Num (s \<noteq> s') 0"
| "fdiv (Num s m) (Num s' m') =
     (if m' = 0 then (if m = 0 then NaN else Infinity (s \<noteq> s'))
      else fround (s \<noteq> s') (m / m'))"

fun fmul :: "number \<Rightarrow> number \<Rightarrow> number" where
  "fmul NaN b = NaN"
| "fmul a NaN = NaN"
| "fmul (Infinity s) (Infinity s') = Infinity (s \<noteq> s')"
| "fmul (Infinity s) (Num s' m') = (if m' = 0 then NaN else Infinity (s \<noteq> s'))"
| "fmul (Num s m) (Infinity s') = (if m = 0 then NaN else Infinity (s \<noteq> s'))"
| "fmul (Num s m) (Num s' m') = fround (s \<noteq> s') (m * m')"

fun fsub :: "number \<Rightarrow> number \<Rightarrow> number" where
  "fsub NaN b = NaN"
| "fsub a NaN = NaN"
| "fsub (Infinity s) (Infinity s') = (if s = s' then NaN else Infinity s)"
| "fsub (Infinity s) (Num s' m') = Infinity s"
| "fsub (Num s m) (Infinity s') = Infinity (\<not> s')"
| "fsub (Num s m) (Num s' m') =
     (let v = signed s m - signed s' m'
      in if v = 0 then Num (s \<and> \<not> s') 0 else fround (v < 0) \<bar>v\<bar>)"

fun fle :: "number \<Rightarrow> number \<Rightarrow> bool" where
  "fle NaN b = False"
| "fle a NaN = False"
| "fle (Infinity s) (Infinity s') = (s \<or> \<not> s')"
| "fle (Infinity s) (Num s' m') = s"
| "fle (Num s m) (Infinity s') = (\<not> s')"
| "fle (Num s m) (Num s' m') = (signed s m \<le> signed s' m')"

section \<open>The TopicSplit banner (src/unnamed/part_001)\<close>

datatype banner_event = CancelSplit | ConfirmSplit

text \<open>
  The component's variables (\<open>timeoutMs\<close>, \<open>progress\<close>, \<open>intervalId\<close>, \<open>visible\<close>), the
  constant \<open>decrement\<close> that the callback created in \<open>onMount\<close> closes over, and the
  part of the runtime the component acts on: the handles of the interval timers that
  are scheduled (\<open>timers\<close>), the last handle given out (\<open>lastHandle\<close>; a handle is a
  positive integer), whether the component has been destroyed, and the events
  dispatched, in order. The props \<open>oldTopic\<close> and \<open>newTopic\<close> are only displayed.
  Before \<open>onMount\<close> no callback exists that could read \<open>decrement\<close>; its initial value
  is never used.
\<close>

record banner =
  timeoutMs :: number
  progress :: number
  intervalId :: "nat option"
  visible :: bool
  decrement :: number
  timers :: "nat set"
  lastHandle :: nat
  destroyed :: bool
  banner_events :: "banner_event list"

definition banner_init :: "number \<Rightarrow> banner" where
  "banner_init t =
     \<lparr> timeoutMs = t, progress = Num False 100, intervalId = None, visible = True,
       decrement = Num False 0, timers = {}, lastHandle = 0, destroyed = False,
       banner_events = [] \<rparr>"

definition tickMs :: number where
  "tickMs = Num False 50"

definition clearInterval :: "nat option \<Rightarrow> banner \<Rightarrow> banner" where
  "clearInterval h s = (case h of None \<Rightarrow> s | Some i \<Rightarrow> s\<lparr>timers := timers s - {i}\<rparr>)"

definition confirmSplit :: "banner \<Rightarrow> banner" where
  "confirmSplit s = s\<lparr>visible := False, banner_events := banner_events s @ [ConfirmSplit]\<rparr>"

definition cancelSplit :: "banner \<Rightarrow> banner" where
  "cancelSplit s =
     (clearInterval (intervalId s) s)
       \<lparr>visible := False, banner_events := banner_events s @ [CancelSplit]\<rparr>"

text \<open>\<open>onMount\<close>: compute \<open>decrement\<close>, schedule the interval, keep its handle.\<close>

definition onMount :: "banner \<Rightarrow> banner" where
  "onMount s =
     (let h = Suc (lastHandle s)
      in s\<lparr>decrement := fmul (fdiv tickMs (timeoutMs s)) (Num False 100),
           lastHandle := h,
           timers := insert h (timers s),
           intervalId := Some h\<rparr>)"

text \<open>The callback handed to \<open>setInterval\<close> (lines 18 to 25).\<close>

definition interval_callback :: "banner \<Rightarrow> banner" where
  "interval_callback s =
     (let p = fsub (progress s) (decrement s)
      in if fle p (Num False 0)
         then confirmSplit (clearInterval (intervalId s) (s\<lparr>progress := Num False 0\<rparr>))
         else s\<lparr>progress := p\<rparr>)"

text \<open>\<open>onDestroy\<close>: \<open>if (intervalId) clearInterval(intervalId)\<close>; the handle 0 would be
  falsy.\<close>

definition onDestroy :: "banner \<Rightarrow> banner" where
  "onDestroy s =
     (case intervalId s of
        None \<Rightarrow> s
      | Some i \<Rightarrow> (if i \<noteq> 0 then clearInterval (Some i) s else s))"

text \<open>
  What can happen to a mounted banner: the runtime calls the interval's callback (only
  while the component's timer is scheduled), the user clicks the button (only while the
  markup under \<open>{#if visible}\<close> is in the document), the parent changes \<open>timeoutMs\<close>,
  or the component is destroyed.
\<close>

definition timer_live :: "banner \<Rightarrow> bool" where
  "timer_live s = (case intervalId s of None \<Rightarrow> False | Some i \<Rightarrow> i \<in> timers s)"

datatype banner_input = Tick | ClickCancel | SetTimeoutMs number | Destroy

fun banner_step :: "banner \<Rightarrow> banner_input \<Rightarrow> banner" where
  "banner_step s Tick = (if timer_live s then interval_callback s else s)"
| "banner_step s ClickCancel = (if visible s \<and> \<not> destroyed s then cancelSplit s else s)"
| "banner_step s (SetTimeoutMs t) = (if destroyed s then s else s\<lparr>timeoutMs := t\<rparr>)"
| "banner_step s Destroy = (if destroyed s then s else (onDestroy s)\<lparr>destroyed := True\<rparr>)"

definition banner_run :: "banner \<Rightarrow> banner_input list \<Rightarrow> banner" where
  "banner_run s ins = foldl banner_step s ins"

definition mounted :: "number \<Rightarrow> banner" where
  "mounted t = onMount (banner_init t)"

text \<open>
  Shapes of a mounted banner: the invariant of every state reachable from \<open>mounted t\<close>;
  the value of \<open>progress\<close> after \<open>n\<close> subtractions of the decrement; the state after
  \<open>n\<close> callbacks that did not reach zero; and the state in which the countdown has
  confirmed.
\<close>

definition banner_inv :: "banner \<Rightarrow> bool" where
  "banner_inv s =
     ((\<exists>h. intervalId s = Some (Suc h)) \<and>
      (visible s \<longrightarrow> banner_events s = []) \<and>
      (\<not> visible s \<longrightarrow> \<not> timer_live s \<and> length (banner_events s) = 1) \<and>
      (destroyed s \<longrightarrow> \<not> timer_live s))"

definition quiescent :: "banner \<Rightarrow> bool" where
  "quiescent s = (\<not> visible s \<and> \<not> timer_live s)"

definition countdown :: "number \<Rightarrow> nat \<Rightarrow> number" where
  "countdown t n =
     ((\<lambda>p. fsub p (fmul (fdiv tickMs t) (Num False 100))) ^^ n) (Num False 100)"

definition counting :: "number \<Rightarrow> nat \<Rightarrow> banner" where
  "counting t n = (mounted t)\<lparr>progress := countdown t n\<rparr>"

definition confirmed :: "number \<Rightarrow> banner" where
  "confirmed t =
     (mounted t)\<lparr>progress := Num False 0, timers := {}, visible := False,
                 banner_events := [ConfirmSplit]\<rparr>"

section \<open>Properties of the side-chat API client\<close>

lemmas request_defs =
  createSideChat_request_def getSideChatsByChatId_request_def addSideChatMessage_request_def
  combineSideChat_request_def deleteSideChat_request_def

lemmas client_defs =
  createSideChat_def getSideChatsByChatId_def addSideChatMessage_def
  combineSideChat_def deleteSideChat_def

lemma header_get_auth_spread:
  "header_get ((''Accept'', a) # (''Content-Type'', c) # auth_spread token) ''Authorization''
     = (case token of None \<Rightarrow> None | Some t \<Rightarrow> if t = [] then None else Some (''Bearer '' @ t))"
  by (simp add: header_get_def auth_spread_def ascii_lower_def split: option.splits)

lemma header_get_content_type:
  "header_get ((''Accept'', ''application/json'') # (''Content-Type'', ''application/json'')
      # auth_spread token) ''Content-Type'' = Some ''application/json''"
  by (simp add: header_get_def ascii_lower_def)

text \<open>
  What the five functions do with a settled \<open>fetch\<close>: a truthy rejection value, and a
  truthy parsed body of a response that is not ok, is logged and thrown; a response that
  is ok resolves with its parsed body.
\<close>

lemma createSideChat_rejected:
  "fetch (createSideChat_request base token b) = Inl e \<Longrightarrow> truthy e \<Longrightarrow>
     createSideChat base fetch token b = ([e], Inl e)"
  by (simp add: createSideChat_def promise_then_def)

lemma createSideChat_not_ok:
  "fetch (createSideChat_request base token b) = Inr res \<Longrightarrow> \<not> ok res \<Longrightarrow>
   json res = Inr v \<Longrightarrow> truthy v \<Longrightarrow>
     createSideChat base fetch token b = ([v], Inl v)"
  by (simp add: createSideChat_def promise_then_def throw_await_def)

lemma createSideChat_ok:
  "fetch (createSideChat_request base token b) = Inr res \<Longrightarrow> ok res \<Longrightarrow>
   json res = Inr v \<Longrightarrow>
     createSideChat base fetch token b = ([], Inr v)"
  by (simp add: createSideChat_def promise_then_def)

lemma deleteSideChat_not_ok:
  "fetch (deleteSideChat_request base token sideChatId) = Inr res \<Longrightarrow> \<not> ok res \<Longrightarrow>
   json res = Inr v \<Longrightarrow> truthy v \<Longrightarrow>
     deleteSideChat base fetch token sideChatId = ([v], Inl v)"
  by (simp add: deleteSideChat_def promise_then_def throw_await_def)

text \<open>
  C1 (every failure of every side-chat API function is thrown to the caller, whatever
  the error value; the function never resolves on a failure). The code throws only
  under \<open>if (error)\<close>, so a failure whose error value is falsy is not thrown. The network
  below answers every request with status 500 and the JSON body \<open>null\<close>: each of the
  five functions logs \<open>null\<close> and then resolves with \<open>null\<close>.
\<close>

theorem falsy_error_resolves_null:
  "createSideChat ''/api/v1'' (\<lambda>r. Inr \<lparr>status = 500, json = Inr JNull\<rparr>) (Some ''tok'')
      (JObj [(''chat_id'', JStr ''c1''), (''step_number'', JNum 1),
             (''original_step_content'', JStr ''step'')]) = ([JNull], Inr JNull) \<and>
   getSideChatsByChatId ''/api/v1'' (\<lambda>r. Inr \<lparr>status = 500, json = Inr JNull\<rparr>) (Some ''tok'')
      ''c1'' = ([JNull], Inr JNull) \<and>
   addSideChatMessage ''/api/v1'' (\<lambda>r. Inr \<lparr>status = 500, json = Inr JNull\<rparr>) (Some ''tok'')
      ''s1'' (JObj [(''role'', JStr ''user''), (''content'', JStr ''hi'')]) = ([JNull], Inr JNull) \<and>
   combineSideChat ''/api/v1'' (\<lambda>r. Inr \<lparr>status = 500, json = Inr JNull\<rparr>) (Some ''tok'')
      ''s1'' = ([JNull], Inr JNull) \<and>
   deleteSideChat ''/api/v1'' (\<lambda>r. Inr \<lparr>status = 500, json = Inr JNull\<rparr>) (Some ''tok'')
      ''s1'' = ([JNull], Inr JNull)"
  by (simp add: client_defs promise_then_def throw_await_def ok_def)

text \<open>
  C2 (a response that is not 2xx makes every side-chat API function throw the parsed
  body and not resolve). The same \<open>if (error)\<close> decides: on status 404 with the JSON
  body \<open>false\<close> (and likewise \<open>0\<close> or the empty string) the parsed body is logged, and
  the function resolves with \<open>null\<close> instead of throwing \<open>false\<close>.
\<close>

theorem not_ok_falsy_body_not_thrown:
  "\<not> ok \<lparr>status = 404, json = Inr (JBool False)\<rparr> \<and>
   snd (createSideChat ''/api/v1'' (\<lambda>r. Inr \<lparr>status = 404, json = Inr (JBool False)\<rparr>) None
      (JObj [])) = Inr JNull \<and>
   snd (getSideChatsByChatId ''/api/v1'' (\<lambda>r. Inr \<lparr>status = 404, json = Inr (JBool False)\<rparr>)
      None ''c1'') = Inr JNull \<and>
   snd (addSideChatMessage ''/api/v1'' (\<lambda>r. Inr \<lparr>status = 404, json = Inr (JNum 0)\<rparr>) None
      ''s1'' (JObj [])) = Inr JNull \<and>
   snd (combineSideChat ''/api/v1'' (\<lambda>r. Inr \<lparr>status = 404, json = Inr (JStr [])\<rparr>) None
      ''s1'') = Inr JNull \<and>
   deleteSideChat ''/api/v1'' (\<lambda>r. Inr \<lparr>status = 404, json = Inr (JBool False)\<rparr>) None
      ''s1'' = ([JBool False], Inr JNull)"
  by (simp add: client_defs promise_then_def throw_await_def ok_def)

lemma expects_accepted:
  "P r \<Longrightarrow> promise_then (expects P v r)
      (\<lambda>res. if \<not> ok res then throw_await (json res) else json res) = Inr v"
  by (simp add: expects_def promise_then_def ok_def)

lemma expects_refused:
  "\<not> P r \<Longrightarrow> promise_then (expects P v r)
      (\<lambda>res. if \<not> ok res then throw_await (json res) else json res)
        = Inl (JError ''unexpected request'')"
  by (simp add: expects_def promise_then_def)

text \<open>
  C7: every side-chat API function hands \<open>fetch\<close> a request with the header
  \<open>Authorization: Bearer <token>\<close> when the token is a non-empty string, and with no
  Authorization header when no token is passed (\<open>undefined\<close> or the empty string);
  \<open>createSideChat\<close> and \<open>addSideChatMessage\<close> send as body the serialisation of exactly
  the value they are given, whatever the token. Said of the functions: against a
  network that accepts only a request with that header (and that body), each resolves
  with the network's answer; against a network that accepts only requests with another
  body, or another header, it fails.
\<close>

theorem bearer_header_and_body:
  "(t \<noteq> [] \<longrightarrow>
      authorization (createSideChat_request base (Some t) b) = Some (''Bearer '' @ t) \<and>
      authorization (getSideChatsByChatId_request base (Some t) cid) = Some (''Bearer '' @ t) \<and>
      authorization (addSideChatMessage_request base (Some t) sid b) = Some (''Bearer '' @ t) \<and>
      authorization (combineSideChat_request base (Some t) sid) = Some (''Bearer '' @ t) \<and>
      authorization (deleteSideChat_request base (Some t) sid) = Some (''Bearer '' @ t) \<and>
      createSideChat base
        (expects (\<lambda>r. authorization r = Some (''Bearer '' @ t) \<and> body r = JSON_stringify b) v)
        (Some t) b = ([], Inr v) \<and>
      getSideChatsByChatId base
        (expects (\<lambda>r. authorization r = Some (''Bearer '' @ t)) v) (Some t) cid = ([], Inr v) \<and>
      addSideChatMessage base
        (expects (\<lambda>r. authorization r = Some (''Bearer '' @ t) \<and> body r = JSON_stringify b) v)
        (Some t) sid b = ([], Inr v) \<and>
      combineSideChat base
        (expects (\<lambda>r. authorization r = Some (''Bearer '' @ t)) v) (Some t) sid = ([], Inr v) \<and>
      deleteSideChat base
        (expects (\<lambda>r. authorization r = Some (''Bearer '' @ t)) v) (Some t) sid = ([], Inr v) \<and>
      createSideChat base
        (expects (\<lambda>r. authorization r \<noteq> Some (''Bearer '' @ t)) v) (Some t) b
        = ([JError ''unexpected request''], Inl (JError ''unexpected request'')) \<and>
      deleteSideChat base
        (expects (\<lambda>r. authorization r \<noteq> Some (''Bearer '' @ t)) v) (Some t) sid
        = ([JError ''unexpected request''], Inl (JError ''unexpected request''))) \<and>
   (tok = None \<or> tok = Some [] \<longrightarrow>
      authorization (createSideChat_request base tok b) = None \<and>
      authorization (getSideChatsByChatId_request base tok cid) = None \<and>
      authorization (addSideChatMessage_request base tok sid b) = None \<and>
      authorization (combineSideChat_request base tok sid) = None \<and>
      authorization (deleteSideChat_request base tok sid) = None \<and>
      createSideChat base
        (expects (\<lambda>r. authorization r = None \<and> body r = JSON_stringify b) v) tok b
        = ([], Inr v) \<and>
      getSideChatsByChatId base (expects (\<lambda>r. authorization r = None) v) tok cid
        = ([], Inr v) \<and>
      addSideChatMessage base
        (expects (\<lambda>r. authorization r = None \<and> body r = JSON_stringify b) v) tok sid b
        = ([], Inr v) \<and>
      combineSideChat base (expects (\<lambda>r. authorization r = None) v) tok sid = ([], Inr v) \<and>
      deleteSideChat base (expects (\<lambda>r. authorization r = None) v) tok sid = ([], Inr v) \<and>
      addSideChatMessage base (expects (\<lambda>r. authorization r \<noteq> None) v) tok sid b
        = ([JError ''unexpected request''], Inl (JError ''unexpected request''))) \<and>
   body (createSideChat_request base tok b) = JSON_stringify b \<and>
   body (addSideChatMessage_request base tok sid b) = JSON_stringify b \<and>
   createSideChat base (expects (\<lambda>r. body r = JSON_stringify b) v) tok b = ([], Inr v) \<and>
   addSideChatMessage base (expects (\<lambda>r. body r = JSON_stringify b) v) tok sid b
     = ([], Inr v) \<and>
   createSideChat base (expects (\<lambda>r. body r \<noteq> JSON_stringify b) v) tok b
     = ([JError ''unexpected request''], Inl (JError ''unexpected request'')) \<and>
   addSideChatMessage base (expects (\<lambda>r. body r \<noteq> JSON_stringify b) v) tok sid b
     = ([JError ''unexpected request''], Inl (JError ''unexpected request''))"
proof -
  have auth: "authorization (createSideChat_request base k b) =
        (case k of None \<Rightarrow> None | Some x \<Rightarrow> if x = [] then None else Some (''Bearer '' @ x))"
      "authorization (getSideChatsByChatId_request base k cid) =
        (case k of None \<Rightarrow> None | Some x \<Rightarrow> if x = [] then None else Some (''Bearer '' @ x))"
      "authorization (addSideChatMessage_request base k sid b) =
        (case k of None \<Rightarrow> None | Some x \<Rightarrow> if x = [] then None else Some (''Bearer '' @ x))"
      "authorization (combineSideChat_request base k sid) =
        (case k of None \<Rightarrow> None | Some x \<Rightarrow> if x = [] then None else Some (''Bearer '' @ x))"
      "authorization (deleteSideChat_request base k sid) =
        (case k of None \<Rightarrow> None | Some x \<Rightarrow> if x = [] then None else Some (''Bearer '' @ x))"
    for k
    by (simp_all add: authorization_def request_defs header_get_auth_spread)
  have bodies: "body (createSideChat_request base k b) = JSON_stringify b"
      "body (addSideChatMessage_request base k sid b) = JSON_stringify b" for k
    by (simp_all add: request_defs)
  have g1: "(t \<noteq> [] \<longrightarrow>
    authorization (createSideChat_request base (Some t) b) = Some (''Bearer '' @ t) \<and>
    authorization (getSideChatsByChatId_request base (Some t) cid) = Some (''Bearer '' @ t) \<and>
    authorization (addSideChatMessage_request base (Some t) sid b) = Some (''Bearer '' @ t) \<and>
    authorization (combineSideChat_request base (Some t) sid) = Some (''Bearer '' @ t) \<and>
    authorization (deleteSideChat_request base (Some t) sid) = Some (''Bearer '' @ t) \<and>
    createSideChat base
    (expects (\<lambda>r. authorization r = Some (''Bearer '' @ t) \<and> body r = JSON_stringify b) v)
    (Some t) b = ([], Inr v) \<and>
    getSideChatsByChatId base
    (expects (\<lambda>r. authorization r = Some (''Bearer '' @ t)) v) (Some t) cid = ([], Inr v) \<and>
    addSideChatMessage base
    (expects (\<lambda>r. authorization r = Some (''Bearer '' @ t) \<and> body r = JSON_stringify b) v)
    (Some t) sid b = ([], Inr v) \<and>
    combineSideChat base
    (expects (\<lambda>r. authorization r = Some (''Bearer '' @ t)) v) (Some t) sid = ([], Inr v) \<and>
    deleteSideChat base
    (expects (\<lambda>r. authorization r = Some (''Bearer '' @ t)) v) (Some t) sid = ([], Inr v) \<and>
    createSideChat base
    (expects (\<lambda>r. authorization r \<noteq> Some (''Bearer '' @ t)) v) (Some t) b
    = ([JError ''unexpected request''], Inl (JError ''unexpected request'')) \<and>
    deleteSideChat base
    (expects (\<lambda>r. authorization r \<noteq> Some (''Bearer '' @ t)) v) (Some t) sid
    = ([JError ''unexpected request''], Inl (JError ''unexpected request'')))"
    by (simp add: client_defs auth bodies expects_accepted expects_refused)
  have g2: "(tok = None \<or> tok = Some [] \<longrightarrow>
    authorization (createSideChat_request base tok b) = None \<and>
    authorization (getSideChatsByChatId_request base tok cid) = None \<and>
    authorization (addSideChatMessage_request base tok sid b) = None \<and>
    authorization (combineSideChat_request base tok sid) = None \<and>
    authorization (deleteSideChat_request base tok sid) = None \<and>
    createSideChat base
    (expects (\<lambda>r. authorization r = None \<and> body r = JSON_stringify b) v) tok b
    = ([], Inr v) \<and>
    getSideChatsByChatId base (expects (\<lambda>r. authorization r = None) v) tok cid
    = ([], Inr v) \<and>
    addSideChatMessage base
    (expects (\<lambda>r. authorization r = None \<and> body r = JSON_stringify b) v) tok sid b
    = ([], Inr v) \<and>
    combineSideChat base (expects (\<lambda>r. authorization r = None) v) tok sid = ([], Inr v) \<and>
    deleteSideChat base (expects (\<lambda>r. authorization r = None) v) tok sid = ([], Inr v) \<and>
    addSideChatMessage base (expects (\<lambda>r. authorization r \<noteq> None) v) tok sid b
    = ([JError ''unexpected request''], Inl (JError ''unexpected request'')))"
    by (auto simp add: client_defs auth bodies expects_accepted expects_refused)
  have g3: "body (createSideChat_request base tok b) = JSON_stringify b \<and>
    body (addSideChatMessage_request base tok sid b) = JSON_stringify b \<and>
    createSideChat base (expects (\<lambda>r. body r = JSON_stringify b) v) tok b = ([], Inr v) \<and>
    addSideChatMessage base (expects (\<lambda>r. body r = JSON_stringify b) v) tok sid b
    = ([], Inr v) \<and>
    createSideChat base (expects (\<lambda>r. body r \<noteq> JSON_stringify b) v) tok b
    = ([JError ''unexpected request''], Inl (JError ''unexpected request'')) \<and>
    addSideChatMessage base (expects (\<lambda>r. body r \<noteq> JSON_stringify b) v) tok sid b
    = ([JError ''unexpected request''], Inl (JError ''unexpected request''))"
    by (simp add: client_defs auth bodies expects_accepted expects_refused)
  show ?thesis
    by (rule conjI [OF g1 conjI [OF g2 g3]])
qed

theorem bearer_header_and_body_witness:
  "createSideChat ''/api/v1''
     (expects (\<lambda>r. authorization r = Some ''Bearer abc''
                  \<and> body r = JSON_stringify (JObj [(''chat_id'', JStr ''c1'')])) (JStr ''made''))
     (Some ''abc'') (JObj [(''chat_id'', JStr ''c1'')]) = ([], Inr (JStr ''made'')) \<and>
   deleteSideChat ''/api/v1'' (expects (\<lambda>r. authorization r = Some ''Bearer abc'') (JStr ''made''))
     (Some ''abc'') ''s1'' = ([], Inr (JStr ''made'')) \<and>
   addSideChatMessage ''/api/v1''
     (expects (\<lambda>r. authorization r = None
                  \<and> body r = JSON_stringify (JObj [(''chat_id'', JStr ''c1'')])) (JStr ''made''))
     None ''s1'' (JObj [(''chat_id'', JStr ''c1'')]) = ([], Inr (JStr ''made'')) \<and>
   authorization (addSideChatMessage_request ''/api/v1'' None ''s1'' (JObj [(''chat_id'', JStr ''c1'')]))
     = None \<and>
   body (addSideChatMessage_request ''/api/v1'' None ''s1'' (JObj [(''chat_id'', JStr ''c1'')]))
     = JSON_stringify (JObj [(''chat_id'', JStr ''c1'')])"
  using bearer_header_and_body [of "''abc''" "''/api/v1''" "JObj [(''chat_id'', JStr ''c1'')]"
      "''c1''" "''s1''" "JStr ''made''" None]
  by simp

section \<open>Properties of the SideChat panel\<close>

lemmas panel_defs =
  handleSend_def handleKeydown_def handleCombine_def handleDiscard_def handleClose_def
  scrollToBottom_def

lemma trim_whitespace_only:
  assumes "\<forall>c\<in>set txt. is_white_space c"
  shows "trim txt = []"
proof -
  from assms have h: "dropWhile is_white_space txt = []" by simp
  show ?thesis by (simp only: trim_def h rev.simps dropWhile.simps)
qed

lemma trim_hello: "trim ''hello'' = ''hello''"
  by (simp add: trim_def is_white_space_def)

text \<open>No handler assigns \<open>isStreaming\<close>: it is false in every state the panel reaches.\<close>

lemma isStreaming_step: "isStreaming (panel_step s i) = isStreaming s"
  by (cases i) (simp_all add: panel_defs)

lemma isStreaming_run: "isStreaming (panel_run s ins) = isStreaming s"
  unfolding panel_run_def by (induction ins arbitrary: s) (simp_all add: isStreaming_step)

lemma not_streaming_reachable: "\<not> isStreaming (panel_run SideChat_init ins)"
  by (simp add: isStreaming_run SideChat_init_def)

text \<open>No handler and no input resets \<open>combineLoading\<close> or \<open>discardLoading\<close>.\<close>

lemma combineLoading_step: "combineLoading s \<Longrightarrow> combineLoading (panel_step s i)"
  by (cases i) (simp_all add: panel_defs)

lemma discardLoading_step: "discardLoading s \<Longrightarrow> discardLoading (panel_step s i)"
  by (cases i) (simp_all add: panel_defs)

lemma combineLoading_run: "combineLoading s \<Longrightarrow> combineLoading (panel_run s ins)"
  unfolding panel_run_def by (induction ins arbitrary: s) (simp_all add: combineLoading_step)

lemma discardLoading_run: "discardLoading s \<Longrightarrow> discardLoading (panel_run s ins)"
  unfolding panel_run_def by (induction ins arbitrary: s) (simp_all add: discardLoading_step)

text \<open>
  C3 (every handler that sets a busy flag resets it in a cleanup path once the request
  has completed, so that no failed request leaves its control disabled for good).
  \<open>handleNext\<close> of StepControls does, in its \<open>finally\<close> block. The panel's \<open>handleCombine\<close> and
  \<open>handleDiscard\<close> set their flag and dispatch; nothing in the component assigns
  \<open>false\<close> to either flag (\<open>combineLoading_run\<close>, \<open>discardLoading_run\<close>). Below, the
  user opens the panel and clicks Combine; whatever becomes of the parent's request,
  and through typing, sending, closing and reopening, both flags' buttons stay
  disabled, and the later clicks on Discard and Combine are not delivered.
\<close>

theorem combine_flag_never_reset:
  "combineLoading (panel_run SideChat_init
      [SetOpen True, ClickCombine, Type ''x'', ClickSend, ClickDiscard, ClickCombine,
       ClickClose, SetOpen False, SetOpen True]) \<and>
   combine_disabled (panel_run SideChat_init
      [SetOpen True, ClickCombine, Type ''x'', ClickSend, ClickDiscard, ClickCombine,
       ClickClose, SetOpen False, SetOpen True]) \<and>
   discard_disabled (panel_run SideChat_init
      [SetOpen True, ClickCombine, Type ''x'', ClickSend, ClickDiscard, ClickCombine,
       ClickClose, SetOpen False, SetOpen True]) \<and>
   panel_events (panel_run SideChat_init
      [SetOpen True, ClickCombine, Type ''x'', ClickSend, ClickDiscard, ClickCombine,
       ClickClose, SetOpen False, SetOpen True])
     = [Combine, SendMessage ''x'', Close] \<and>
   discardLoading (panel_run SideChat_init
      [SetOpen True, ClickDiscard, ClickClose, SetOpen False, SetOpen True, ClickCombine]) \<and>
   panel_events (panel_run SideChat_init
      [SetOpen True, ClickDiscard, ClickClose, SetOpen False, SetOpen True, ClickCombine])
     = [Discard, Close]"
  by (simp add: panel_run_def SideChat_init_def panel_defs combine_disabled_def
      discard_disabled_def send_disabled_def trim_def is_white_space_def)

text \<open>
  C6: for an input that is empty or all white space, send (in both variants of the
  panel, by the button or by Enter) dispatches nothing and leaves the whole state as it
  is; in every state the panel can reach, send with the input \<open>hello\<close> dispatches
  \<open>sendMessage\<close> with content \<open>hello\<close> and sets the input to the empty string (the
  first variant also asks for a scroll), and nothing else changes.
\<close>

theorem send_whitespace_noop_hello_sent:
  "((\<forall>c\<in>set txt. is_white_space c) \<longrightarrow>
      handleSend (s\<lparr>inputText := txt\<rparr>) = s\<lparr>inputText := txt\<rparr> \<and>
      handleSend_ev (s\<lparr>inputText := txt\<rparr>) = s\<lparr>inputText := txt\<rparr> \<and>
      panel_step (s\<lparr>inputText := txt\<rparr>) ClickSend = s\<lparr>inputText := txt\<rparr> \<and>
      panel_step (s\<lparr>inputText := txt\<rparr>) (Keydown ''Enter'' False) = s\<lparr>inputText := txt\<rparr>) \<and>
   (r = panel_run SideChat_init ins \<longrightarrow>
      handleSend (r\<lparr>inputText := ''hello''\<rparr>) =
        r\<lparr>inputText := [], panel_events := panel_events r @ [SendMessage ''hello''],
          scrollCalls := Suc (scrollCalls r)\<rparr> \<and>
      handleSend_ev (r\<lparr>inputText := ''hello''\<rparr>) =
        r\<lparr>inputText := [], panel_events := panel_events r @ [SendMessage ''hello'']\<rparr> \<and>
      (isOpen r \<longrightarrow>
         panel_step (r\<lparr>inputText := ''hello''\<rparr>) ClickSend =
           handleSend (r\<lparr>inputText := ''hello''\<rparr>) \<and>
         panel_step (r\<lparr>inputText := ''hello''\<rparr>) (Keydown ''Enter'' False) =
           handleSend (r\<lparr>inputText := ''hello''\<rparr>)))"
  using not_streaming_reachable [of ins]
  by (auto simp add: handleSend_def handleSend_ev_def handleKeydown_def send_disabled_def
      trim_whitespace_only trim_hello scrollToBottom_def)

theorem send_whitespace_noop_hello_sent_witness:
  "handleSend (SideChat_init\<lparr>inputText := [CHR '' '', CHR 0x09, CHR 0x0A]\<rparr>) =
     SideChat_init\<lparr>inputText := [CHR '' '', CHR 0x09, CHR 0x0A]\<rparr> \<and>
   handleSend ((panel_run SideChat_init [SetOpen True])\<lparr>inputText := ''hello''\<rparr>) =
     (panel_run SideChat_init [SetOpen True])
       \<lparr>inputText := [], panel_events := [SendMessage ''hello''], scrollCalls := 1\<rparr> \<and>
   panel_step ((panel_run SideChat_init [SetOpen True])\<lparr>inputText := ''hello''\<rparr>) ClickSend =
     (panel_run SideChat_init [SetOpen True])
       \<lparr>inputText := [], panel_events := [SendMessage ''hello''], scrollCalls := 1\<rparr>"
  using send_whitespace_noop_hello_sent
    [of "[CHR '' '', CHR 0x09, CHR 0x0A]" SideChat_init "panel_run SideChat_init [SetOpen True]"
        "[SetOpen True]"]
  by (simp add: is_white_space_def panel_run_def SideChat_init_def)

text \<open>
  C9: while \<open>combineLoading\<close> or \<open>discardLoading\<close> holds, the Combine and the Discard
  button are both disabled and a click on either is not delivered; whether the send
  button is disabled depends on the input text and \<open>isStreaming\<close> only, and \<open>handleSend\<close>
  does the same whatever the two flags are.
\<close>

theorem combine_discard_exclude_send_independent:
  "(combineLoading s \<or> discardLoading s \<longrightarrow>
      combine_disabled s \<and> discard_disabled s \<and>
      panel_step s ClickCombine = s \<and> panel_step s ClickDiscard = s) \<and>
   send_disabled s = (trim (inputText s) = [] \<or> isStreaming s) \<and>
   send_disabled (s\<lparr>combineLoading := a, discardLoading := b\<rparr>) = send_disabled s \<and>
   handleSend (s\<lparr>combineLoading := a, discardLoading := b\<rparr>) =
     (handleSend s)\<lparr>combineLoading := a, discardLoading := b\<rparr>"
  by (auto simp add: combine_disabled_def discard_disabled_def send_disabled_def handleSend_def
      scrollToBottom_def)

theorem combine_discard_exclude_send_independent_witness:
  "combine_disabled (handleDiscard (SideChat_init\<lparr>isOpen := True, inputText := ''hi''\<rparr>)) \<and>
   discard_disabled (handleDiscard (SideChat_init\<lparr>isOpen := True, inputText := ''hi''\<rparr>)) \<and>
   panel_step (handleDiscard (SideChat_init\<lparr>isOpen := True, inputText := ''hi''\<rparr>)) ClickCombine
     = handleDiscard (SideChat_init\<lparr>isOpen := True, inputText := ''hi''\<rparr>) \<and>
   \<not> send_disabled (handleDiscard (SideChat_init\<lparr>isOpen := True, inputText := ''hi''\<rparr>))"
  using combine_discard_exclude_send_independent
    [of "handleDiscard (SideChat_init\<lparr>isOpen := True, inputText := ''hi''\<rparr>)" True True]
  by (simp add: handleDiscard_def SideChat_init_def trim_def is_white_space_def)

section \<open>Properties of StepControls\<close>

text \<open>
  C8: however the \<open>nextStep\<close> request settles, resolved or rejected, \<open>loading\<close> is
  false and the "Next" button enabled once \<open>handleNext\<close> has resumed; a call that
  passes the guard sets \<open>loading\<close> (the button is disabled while the request is in
  flight) and ends with \<open>loading\<close> false.
\<close>

theorem handleNext_clears_loading:
  "\<not> loading (handleNext_settle outcome s) \<and>
   \<not> next_disabled (handleNext_settle outcome s) \<and>
   (\<not> loading s \<and> chatId s \<noteq> [] \<longrightarrow>
      handleNext_begin s = Some (s\<lparr>loading := True\<rparr>) \<and>
      next_disabled (s\<lparr>loading := True\<rparr>) \<and>
      \<not> loading (handleNext outcome s) \<and>
      \<not> next_disabled (handleNext outcome s))"
  by (auto simp add: handleNext_def handleNext_begin_def handleNext_settle_def next_disabled_def
      split: sum.splits)

theorem handleNext_clears_loading_witness:
  "handleNext_begin (StepControls_init\<lparr>chatId := ''c1''\<rparr>) =
     Some (StepControls_init\<lparr>chatId := ''c1'', loading := True\<rparr>) \<and>
   \<not> loading (handleNext (Inl (JError ''Failed to fetch'')) (StepControls_init\<lparr>chatId := ''c1''\<rparr>)) \<and>
   \<not> next_disabled
       (handleNext (Inl (JError ''Failed to fetch'')) (StepControls_init\<lparr>chatId := ''c1''\<rparr>))"
  using handleNext_clears_loading
    [of "Inl (JError ''Failed to fetch'')" "StepControls_init\<lparr>chatId := ''c1''\<rparr>"]
  by (simp add: StepControls_init_def)

section \<open>Properties of the TopicSplit banner\<close>

lemmas banner_defs =
  interval_callback_def confirmSplit_def cancelSplit_def clearInterval_def onDestroy_def
  timer_live_def Let_def

lemma banner_run_snoc: "banner_run s (ins @ [i]) = banner_step (banner_run s ins) i"
  by (simp add: banner_run_def)

lemma banner_run_append: "banner_run s (xs @ ys) = banner_run (banner_run s xs) ys"
  by (simp add: banner_run_def)

lemma mounted_simps:
  "timer_live (mounted t)" "intervalId (mounted t) = Some 1" "timers (mounted t) = {1}"
  "progress (mounted t) = Num False 100" "visible (mounted t)" "banner_events (mounted t) = []"
  "decrement (mounted t) = fmul (fdiv tickMs t) (Num False 100)"
  by (simp_all add: mounted_def onMount_def banner_init_def timer_live_def)

subsection \<open>The invariant of a mounted banner\<close>

lemma banner_inv_mounted: "banner_inv (mounted t)"
  by (simp add: banner_inv_def mounted_def onMount_def banner_init_def timer_live_def Let_def)

lemma banner_inv_step: "banner_inv s \<Longrightarrow> banner_inv (banner_step s i)"
  by (cases i) (auto simp add: banner_inv_def banner_defs split: option.splits)

lemma banner_inv_run: "banner_inv s \<Longrightarrow> banner_inv (banner_run s ins)"
  unfolding banner_run_def by (induction ins arbitrary: s) (simp_all add: banner_inv_step)

lemma banner_inv_reachable: "banner_inv (banner_run (mounted t) ins)"
  by (simp add: banner_inv_run banner_inv_mounted)

lemma at_most_one_event: "length (banner_events (banner_run (mounted t) ins)) \<le> 1"
proof -
  have "banner_inv (banner_run (mounted t) ins)" by (rule banner_inv_reachable)
  then show ?thesis
    by (cases "visible (banner_run (mounted t) ins)") (simp_all add: banner_inv_def)
qed

text \<open>Once the banner is hidden and its timer cleared, nothing dispatches any more.\<close>

lemma quiescent_step:
  "quiescent s \<Longrightarrow>
     quiescent (banner_step s i) \<and> banner_events (banner_step s i) = banner_events s"
  by (cases i) (auto simp add: quiescent_def banner_defs split: option.splits)

lemma quiescent_run:
  "quiescent s \<Longrightarrow>
     quiescent (banner_run s ins) \<and> banner_events (banner_run s ins) = banner_events s"
  unfolding banner_run_def
proof (induction ins arbitrary: s)
  case Nil
  then show ?case by simp
next
  case (Cons i ins)
  from quiescent_step [OF Cons.prems, of i] Cons.IH [of "banner_step s i"]
  show ?case by simp
qed

text \<open>A destroyed component whose timer is cleared does not change at all.\<close>

lemma destroyed_step: "destroyed s \<Longrightarrow> \<not> timer_live s \<Longrightarrow> banner_step s i = s"
  by (cases i) simp_all

lemma destroyed_run: "destroyed s \<Longrightarrow> \<not> timer_live s \<Longrightarrow> banner_run s ins = s"
  unfolding banner_run_def by (induction ins) (simp_all add: destroyed_step)

lemma destroy_clears:
  "banner_inv s \<Longrightarrow> destroyed (banner_step s Destroy) \<and> \<not> timer_live (banner_step s Destroy)"
  by (auto simp add: banner_inv_def banner_defs split: option.splits)

lemma cancel_effect:
  assumes "banner_inv s" "visible s" "\<not> destroyed s"
  shows "banner_events (banner_step s ClickCancel) = [CancelSplit] \<and>
         quiescent (banner_step s ClickCancel)"
  using assms by (auto simp add: banner_inv_def quiescent_def banner_defs split: option.splits)

subsection \<open>Evaluating numbers\<close>

lemmas number_eval =
  fround_def normalise_def scale_up.simps scale_down.simps round_half_even_def pow2_def
  signed_def tickMs_def Let_def

text \<open>
  The doubles of the countdown for three values of \<open>timeoutMs\<close>. For 200 every result
  is exact. For 150 the quotient \<open>50 / 150\<close> and the decrement are rounded down, and
  three subtractions leave \<open>2^-46\<close> (1.42e-14), not zero.
\<close>

lemma decrement_200: "fmul (fdiv tickMs (Num False 200)) (Num False 100) = Num False 25"
  by (simp add: number_eval)

lemma decrement_100: "fmul (fdiv tickMs (Num False 100)) (Num False 100) = Num False 50"
  by (simp add: number_eval)

lemma quotient_150: "fdiv tickMs (Num False 150) = Num False (6004799503160661 / 2 ^ 54)"
  by (simp add: number_eval)

lemma decrement_150:
  "fmul (fdiv tickMs (Num False 150)) (Num False 100) = Num False (4691249611844266 / 2 ^ 47)"
  by (simp add: quotient_150) (simp add: number_eval)

lemma countdown_Suc:
  "countdown t (Suc n) = fsub (countdown t n) (fmul (fdiv tickMs t) (Num False 100))"
  by (simp add: countdown_def)

lemma countdown_0: "countdown t 0 = Num False 100"
  by (simp add: countdown_def)

lemma nat_2_Suc: "(2::nat) = Suc 1"
  by simp

lemma nat_3_Suc: "(3::nat) = Suc 2"
  by simp

lemma nat_4_Suc: "(4::nat) = Suc 3"
  by simp

lemma countdown_200:
  "countdown (Num False 200) 1 = Num False 75"
  "countdown (Num False 200) 2 = Num False 50"
  "countdown (Num False 200) 3 = Num False 25"
  "countdown (Num False 200) 4 = Num False 0"
proof -
  show 1: "countdown (Num False 200) 1 = Num False 75"
    using countdown_Suc [of "Num False 200" 0]
    by (simp add: countdown_0 decrement_200) (simp add: number_eval)
  show 2: "countdown (Num False 200) 2 = Num False 50"
    by (simp only: nat_2_Suc countdown_Suc 1 decrement_200) (simp add: number_eval)
  show 3: "countdown (Num False 200) 3 = Num False 25"
    by (simp only: nat_3_Suc countdown_Suc 2 decrement_200) (simp add: number_eval)
  show "countdown (Num False 200) 4 = Num False 0"
    by (simp only: nat_4_Suc countdown_Suc 3 decrement_200) (simp add: number_eval)
qed

lemma countdown_150:
  "countdown (Num False 150) 1 = Num False (4691249611844267 / 2 ^ 46)"
  "countdown (Num False 150) 2 = Num False (4691249611844268 / 2 ^ 47)"
  "countdown (Num False 150) 3 = Num False (1 / 2 ^ 46)"
  "countdown (Num False 150) 4 = Num True (4691249611844264 / 2 ^ 47)"
proof -
  show 1: "countdown (Num False 150) 1 = Num False (4691249611844267 / 2 ^ 46)"
    using countdown_Suc [of "Num False 150" 0]
    by (simp add: countdown_0 decrement_150) (simp add: number_eval)
  show 2: "countdown (Num False 150) 2 = Num False (4691249611844268 / 2 ^ 47)"
    by (simp only: nat_2_Suc countdown_Suc 1 decrement_150) (simp add: number_eval)
  show 3: "countdown (Num False 150) 3 = Num False (1 / 2 ^ 46)"
    by (simp only: nat_3_Suc countdown_Suc 2 decrement_150) (simp add: number_eval)
  show "countdown (Num False 150) 4 = Num True (4691249611844264 / 2 ^ 47)"
    by (simp only: nat_4_Suc countdown_Suc 3 decrement_150) (simp add: number_eval)
qed

lemma countdown_100:
  "countdown (Num False 100) 1 = Num False 50"
  "countdown (Num False 100) 2 = Num False 0"
proof -
  show 1: "countdown (Num False 100) 1 = Num False 50"
    using countdown_Suc [of "Num False 100" 0]
    by (simp add: countdown_0 decrement_100) (simp add: number_eval)
  show "countdown (Num False 100) 2 = Num False 0"
    by (simp only: nat_2_Suc countdown_Suc 1 decrement_100) (simp add: number_eval)
qed

subsection \<open>The countdown\<close>

lemma replicate_Suc_snoc: "replicate (Suc n) x = replicate n x @ [x]"
  by (simp add: replicate_append_same)

lemma counting_0: "counting t 0 = mounted t"
  by (simp add: counting_def countdown_0 mounted_simps)

lemma counting_tick:
  "banner_step (counting t n) Tick =
    (if fle (countdown t (Suc n)) (Num False 0) then confirmed t else counting t (Suc n))"
proof -
  have live: "timer_live (counting t n)"
    by (simp add: counting_def timer_live_def mounted_simps)
  have prog: "fsub (progress (counting t n)) (decrement (counting t n)) = countdown t (Suc n)"
    by (simp add: counting_def mounted_simps countdown_Suc)
  have conf: "confirmSplit (clearInterval (intervalId (counting t n))
                ((counting t n)\<lparr>progress := Num False 0\<rparr>)) = confirmed t"
    by (simp add: counting_def confirmed_def confirmSplit_def clearInterval_def mounted_simps)
  have upd: "(counting t n)\<lparr>progress := countdown t (Suc n)\<rparr> = counting t (Suc n)"
    by (simp add: counting_def)
  show ?thesis
    by (simp only: banner_step.simps live if_True interval_callback_def Let_def prog conf upd)
qed

lemma ticks_before_zero:
  "(\<forall>k\<in>{1..n}. \<not> fle (countdown t k) (Num False 0)) \<Longrightarrow>
     banner_run (mounted t) (replicate n Tick) = counting t n"
proof (induction n)
  case 0
  then show ?case by (simp add: banner_run_def counting_0)
next
  case (Suc n)
  from Suc.prems have earlier: "\<forall>k\<in>{1..n}. \<not> fle (countdown t k) (Num False 0)"
    and pos: "\<not> fle (countdown t (Suc n)) (Num False 0)"
    by simp_all
  have "banner_run (mounted t) (replicate (Suc n) Tick) =
        banner_step (banner_run (mounted t) (replicate n Tick)) Tick"
    by (simp only: replicate_Suc_snoc banner_run_snoc)
  also have "\<dots> = banner_step (counting t n) Tick"
    using Suc.IH [OF earlier] by simp
  also have "\<dots> = counting t (Suc n)"
    using pos by (simp only: counting_tick) simp
  finally show ?case .
qed

lemma tick_at_zero:
  assumes "\<forall>k\<in>{1..n}. \<not> fle (countdown t k) (Num False 0)"
    and "fle (countdown t (Suc n)) (Num False 0)"
  shows "banner_run (mounted t) (replicate (Suc n) Tick) = confirmed t"
proof -
  have "banner_run (mounted t) (replicate (Suc n) Tick) =
        banner_step (banner_run (mounted t) (replicate n Tick)) Tick"
    by (simp only: replicate_Suc_snoc banner_run_snoc)
  also have "\<dots> = banner_step (counting t n) Tick"
    using ticks_before_zero [OF assms(1)] by simp
  also have "\<dots> = confirmed t"
    using assms(2) by (simp only: counting_tick) simp
  finally show ?thesis .
qed

lemma tick_idle: "\<not> timer_live s \<Longrightarrow> banner_run s (replicate k Tick) = s"
  unfolding banner_run_def by (induction k) simp_all

lemma confirmed_idle: "banner_run (confirmed t) (replicate k Tick) = confirmed t"
  by (rule tick_idle) (simp add: confirmed_def timer_live_def mounted_simps)

lemma ticks_after_zero:
  assumes "\<forall>k\<in>{1..n}. \<not> fle (countdown t k) (Num False 0)"
    and "fle (countdown t (Suc n)) (Num False 0)"
  shows "banner_run (mounted t) (replicate (Suc n + j) Tick) = confirmed t"
proof -
  have "banner_run (mounted t) (replicate (Suc n + j) Tick) =
        banner_run (banner_run (mounted t) (replicate (Suc n) Tick)) (replicate j Tick)"
    by (simp only: replicate_add banner_run_def foldl_append)
  also have "\<dots> = confirmed t"
    by (simp only: tick_at_zero [OF assms] confirmed_idle)
  finally show ?thesis .
qed

lemma positive_200: "\<forall>k\<in>{1..3}. \<not> fle (countdown (Num False 200) k) (Num False 0)"
proof
  fix k :: nat
  assume "k \<in> {1..3}"
  then have "k = 1 \<or> k = 2 \<or> k = 3" by auto
  then show "\<not> fle (countdown (Num False 200) k) (Num False 0)"
    using countdown_200 by (auto simp add: signed_def)
qed

lemma positive_150: "\<forall>k\<in>{1..3}. \<not> fle (countdown (Num False 150) k) (Num False 0)"
proof
  fix k :: nat
  assume "k \<in> {1..3}"
  then have "k = 1 \<or> k = 2 \<or> k = 3" by auto
  then show "\<not> fle (countdown (Num False 150) k) (Num False 0)"
    using countdown_150 by (auto simp add: signed_def)
qed

lemma positive_100: "\<forall>k\<in>{1..1}. \<not> fle (countdown (Num False 100) k) (Num False 0)"
  using countdown_100(1) by (simp add: signed_def)

lemma reaches_zero_200: "fle (countdown (Num False 200) (Suc 3)) (Num False 0)"
  using countdown_200(4) by (simp add: signed_def)

lemma reaches_zero_100: "fle (countdown (Num False 100) (Suc 1)) (Num False 0)"
  using countdown_100(2) by (simp add: signed_def numeral_2_eq_2)

text \<open>
  With \<open>timeoutMs = 150\<close> the third callback leaves \<open>progress\<close> at \<open>2^-46\<close>, above
  zero: the banner confirms on the fourth callback, at 200 ms.
\<close>

lemma confirms_on_fourth_tick_150:
  "banner_events (banner_run (mounted (Num False 150)) (replicate 3 Tick)) = [] \<and>
   banner_run (mounted (Num False 150)) (replicate 4 Tick) = confirmed (Num False 150)"
proof -
  have "fle (countdown (Num False 150) (Suc 3)) (Num False 0)"
    using countdown_150(4) by (simp add: signed_def)
  from ticks_after_zero [OF positive_150 this, of 0] ticks_before_zero [OF positive_150]
  show ?thesis by (simp add: counting_def mounted_simps)
qed

text \<open>With \<open>timeoutMs = 0\<close> the decrement is infinite and the first callback confirms;
  with \<open>timeoutMs = NaN\<close> the progress is NaN, never at or below zero.\<close>

lemma infinite_decrement: "banner_run (mounted (Num False 0)) [Tick] = confirmed (Num False 0)"
  by (simp add: banner_run_def timer_live_def mounted_simps interval_callback_def
      confirmSplit_def clearInterval_def confirmed_def tickMs_def)

lemma special_decrements:
  "decrement (mounted (Num True 0)) = Infinity True"
  "decrement (mounted (Infinity False)) = Num False 0"
  "decrement (mounted NaN) = NaN"
  by (simp_all add: mounted_simps tickMs_def fround_def)

lemma fsub_NaN_right: "fsub a NaN = NaN"
  by (cases a) simp_all

lemma nan_never_confirms:
  "banner_run (mounted NaN) (replicate n Tick) = (mounted NaN)\<lparr>progress := countdown NaN n\<rparr> \<and>
   (0 < n \<longrightarrow> countdown NaN n = NaN)"
proof -
  have nan: "countdown NaN k = NaN" if "0 < k" for k
    using that by (induction k) (simp_all add: countdown_Suc tickMs_def fsub_NaN_right)
  then have "\<forall>k\<in>{1..n}. \<not> fle (countdown NaN k) (Num False 0)" by simp
  from ticks_before_zero [OF this] nan show ?thesis by (simp add: counting_def)
qed

subsection \<open>The claims about the banner\<close>

text \<open>
  C4: when cancel is clicked while the banner is still shown (the countdown has not
  reached zero, the component is not destroyed), \<open>cancelSplit\<close> is dispatched, the
  banner is hidden at once and the timer cleared, and whatever happens afterwards, for
  as long as one likes, \<open>cancelSplit\<close> stays the only event ever dispatched: no
  \<open>confirmSplit\<close> follows. After the component is destroyed its timer is cleared and
  nothing changes any more: the callback never runs again.
\<close>

theorem cancel_then_never_confirm:
  "(visible (banner_run (mounted t) pre) \<and> \<not> destroyed (banner_run (mounted t) pre) \<longrightarrow>
      banner_events (banner_run (mounted t) (pre @ [ClickCancel])) = [CancelSplit] \<and>
      \<not> visible (banner_run (mounted t) (pre @ [ClickCancel])) \<and>
      \<not> timer_live (banner_run (mounted t) (pre @ [ClickCancel])) \<and>
      banner_events (banner_run (mounted t) (pre @ [ClickCancel] @ post)) = [CancelSplit]) \<and>
   \<not> timer_live (banner_run (mounted t) (pre @ [Destroy])) \<and>
   banner_run (mounted t) (pre @ [Destroy] @ post) = banner_run (mounted t) (pre @ [Destroy])"
proof -
  let ?r = "banner_run (mounted t) pre"
  have inv: "banner_inv ?r" by (rule banner_inv_reachable)
  have step: "banner_run (mounted t) (pre @ [i]) = banner_step ?r i" for i
    by (simp add: banner_run_def)
  have step2: "banner_run (mounted t) (pre @ [i] @ post) = banner_run (banner_step ?r i) post"
    for i by (simp add: banner_run_def)
  have cancel: "banner_events (banner_step ?r ClickCancel) = [CancelSplit] \<and>
      \<not> visible (banner_step ?r ClickCancel) \<and> \<not> timer_live (banner_step ?r ClickCancel) \<and>
      banner_events (banner_run (banner_step ?r ClickCancel) post) = [CancelSplit]"
    if "visible ?r" "\<not> destroyed ?r"
    using cancel_effect [OF inv that] quiescent_run [of "banner_step ?r ClickCancel" post]
    by (simp add: quiescent_def)
  have destroy: "\<not> timer_live (banner_step ?r Destroy) \<and>
      banner_run (banner_step ?r Destroy) post = banner_step ?r Destroy"
    using destroy_clears [OF inv] destroyed_run [of "banner_step ?r Destroy" post] by simp
  show ?thesis
    unfolding step step2 using cancel destroy by blast
qed

theorem cancel_then_never_confirm_witness:
  "banner_events (banner_run (mounted (Num False 200)) ([Tick, Tick] @ [ClickCancel]))
     = [CancelSplit] \<and>
   \<not> visible (banner_run (mounted (Num False 200)) ([Tick, Tick] @ [ClickCancel])) \<and>
   \<not> timer_live (banner_run (mounted (Num False 200)) ([Tick, Tick] @ [ClickCancel])) \<and>
   banner_events (banner_run (mounted (Num False 200))
      ([Tick, Tick] @ [ClickCancel] @ [Tick, Tick, Tick, ClickCancel, Tick])) = [CancelSplit] \<and>
   \<not> timer_live (banner_run (mounted (Num False 200)) ([Tick, Tick] @ [Destroy]))"
proof -
  have "\<forall>k\<in>{1..2}. \<not> fle (countdown (Num False 200) k) (Num False 0)"
    using positive_200 by simp
  from ticks_before_zero [OF this]
  have "banner_run (mounted (Num False 200)) [Tick, Tick] = counting (Num False 200) 2"
    by (simp add: numeral_2_eq_2)
  then have "visible (banner_run (mounted (Num False 200)) [Tick, Tick]) \<and>
      \<not> destroyed (banner_run (mounted (Num False 200)) [Tick, Tick])"
    by (simp add: counting_def mounted_def onMount_def banner_init_def)
  with cancel_then_never_confirm
    [of "Num False 200" "[Tick, Tick]" "[Tick, Tick, Tick, ClickCancel, Tick]"]
  show ?thesis by simp
qed

text \<open>
  C5: with no cancel, the callback runs every 50 ms, so the \<open>n\<close>-th run is at
  \<open>n * 50\<close> ms. Each run subtracts \<open>(50 / timeoutMs) * 100\<close> from \<open>progress\<close>, which
  starts at 100: \<open>countdown t n\<close> is its value after \<open>n\<close> subtractions, in the
  arithmetic of doubles. As long as none of the first \<open>n\<close> values is at or below zero,
  \<open>n\<close> runs leave \<open>progress\<close> at \<open>countdown t n\<close> and change nothing else. On the first
  run whose value is at or below zero, \<open>progress\<close> is set to 0, the interval is cleared,
  the banner hidden and \<open>confirmSplit\<close> dispatched; any number of further ticks changes
  nothing, so it is dispatched once. For every \<open>timeoutMs\<close> at most one event is
  dispatched. With \<open>timeoutMs = 200\<close> nothing is dispatched within 150 ms, and
  \<open>confirmSplit\<close> has been dispatched exactly once at 200 ms and still at 250 ms.
\<close>

theorem countdown_confirms_once:
  "countdown t 0 = Num False 100 \<and>
   countdown t (Suc n) = fsub (countdown t n) (fmul (fdiv (Num False 50) t) (Num False 100)) \<and>
   ((\<forall>k\<in>{1..n}. \<not> fle (countdown t k) (Num False 0)) \<longrightarrow>
      banner_run (mounted t) (replicate n Tick) = (mounted t)\<lparr>progress := countdown t n\<rparr> \<and>
      (fle (countdown t (Suc n)) (Num False 0) \<longrightarrow>
         banner_run (mounted t) (replicate (Suc n + j) Tick) =
           (mounted t)\<lparr>progress := Num False 0, timers := {}, visible := False,
                       banner_events := [ConfirmSplit]\<rparr>)) \<and>
   length (banner_events (banner_run (mounted t) (replicate m Tick))) \<le> 1 \<and>
   banner_events (banner_run (mounted (Num False 200)) (replicate 3 Tick)) = [] \<and>
   banner_events (banner_run (mounted (Num False 200)) (replicate 4 Tick)) = [ConfirmSplit] \<and>
   banner_events (banner_run (mounted (Num False 200)) (replicate 5 Tick)) = [ConfirmSplit]"
proof -
  have step: "countdown t (Suc n) =
      fsub (countdown t n) (fmul (fdiv (Num False 50) t) (Num False 100))"
    using countdown_Suc [of t n] by (simp only: tickMs_def)
  have before: "banner_run (mounted t) (replicate n Tick) = (mounted t)\<lparr>progress := countdown t n\<rparr>"
    if "\<forall>k\<in>{1..n}. \<not> fle (countdown t k) (Num False 0)"
    using ticks_before_zero [OF that] by (simp only: counting_def)
  have after: "banner_run (mounted t) (replicate (Suc n + j) Tick) =
        (mounted t)\<lparr>progress := Num False 0, timers := {}, visible := False,
                    banner_events := [ConfirmSplit]\<rparr>"
    if "\<forall>k\<in>{1..n}. \<not> fle (countdown t k) (Num False 0)"
      and "fle (countdown t (Suc n)) (Num False 0)"
    using ticks_after_zero [OF that] by (simp only: confirmed_def)
  have three: "banner_events (banner_run (mounted (Num False 200)) (replicate 3 Tick)) = []"
    using ticks_before_zero [OF positive_200] by (simp add: counting_def mounted_simps)
  have "Suc 3 + 0 = (4::nat)" "Suc 3 + 1 = (5::nat)" by simp_all
  then have four: "banner_run (mounted (Num False 200)) (replicate 4 Tick)
                     = confirmed (Num False 200)"
    and five: "banner_run (mounted (Num False 200)) (replicate 5 Tick)
                 = confirmed (Num False 200)"
    using ticks_after_zero [OF positive_200 reaches_zero_200, of 0]
      ticks_after_zero [OF positive_200 reaches_zero_200, of 1] by simp_all
  have closed: "banner_events (banner_run (mounted (Num False 200)) (replicate 4 Tick))
                  = [ConfirmSplit] \<and>
                banner_events (banner_run (mounted (Num False 200)) (replicate 5 Tick))
                  = [ConfirmSplit]"
    by (simp add: four five confirmed_def)
  show ?thesis
    using countdown_0 [of t] step before after at_most_one_event [of t "replicate m Tick"]
      three closed
    by blast
qed

theorem countdown_confirms_once_witness:
  "banner_run (mounted (Num False 200)) (replicate 3 Tick)
     = (mounted (Num False 200))\<lparr>progress := Num False 25\<rparr> \<and>
   banner_run (mounted (Num False 200)) (replicate (Suc 3 + 7) Tick) =
     (mounted (Num False 200))\<lparr>progress := Num False 0, timers := {}, visible := False,
                    banner_events := [ConfirmSplit]\<rparr>"
  using countdown_confirms_once [of "Num False 200" 3 7 0] positive_200 reaches_zero_200
  by (simp add: countdown_200)

text \<open>
  C10: over the whole life of a banner at most one event is dispatched, so never both
  \<open>confirmSplit\<close> and \<open>cancelSplit\<close>; once one has been dispatched the banner is hidden
  and its timer cleared, and no continuation dispatches anything more.
\<close>

theorem at_most_one_of_confirm_cancel:
  "length (banner_events (banner_run (mounted t) ins)) \<le> 1 \<and>
   (banner_events (banner_run (mounted t) ins) \<noteq> [] \<longrightarrow>
      \<not> visible (banner_run (mounted t) ins) \<and>
      \<not> timer_live (banner_run (mounted t) ins) \<and>
      banner_events (banner_run (mounted t) (ins @ post))
        = banner_events (banner_run (mounted t) ins))"
proof -
  let ?r = "banner_run (mounted t) ins"
  have inv: "banner_inv ?r" by (rule banner_inv_reachable)
  have "quiescent ?r" if "banner_events ?r \<noteq> []"
    using inv that by (auto simp add: banner_inv_def quiescent_def)
  then show ?thesis
    using at_most_one_event [of t ins] quiescent_run [of ?r post]
    by (auto simp add: quiescent_def banner_run_append)
qed

theorem at_most_one_of_confirm_cancel_witness:
  "banner_events (banner_run (mounted (Num False 100)) [Tick, Tick]) = [ConfirmSplit] \<and>
   \<not> visible (banner_run (mounted (Num False 100)) [Tick, Tick]) \<and>
   \<not> timer_live (banner_run (mounted (Num False 100)) [Tick, Tick]) \<and>
   banner_events (banner_run (mounted (Num False 100)) ([Tick, Tick] @ [ClickCancel, Tick, Destroy]))
     = [ConfirmSplit]"
proof -
  from tick_at_zero [OF positive_100 reaches_zero_100]
  have "banner_run (mounted (Num False 100)) [Tick, Tick] = confirmed (Num False 100)"
    by (simp add: numeral_2_eq_2)
  then have "banner_events (banner_run (mounted (Num False 100)) [Tick, Tick]) = [ConfirmSplit]"
    by (simp add: confirmed_def)
  with at_most_one_of_confirm_cancel
    [of "Num False 100" "[Tick, Tick]" "[ClickCancel, Tick, Destroy]"]
  show ?thesis by simp
qed

end
